theory Spec2Isabelle
  imports Main
begin

section \<open>The anomaly-detection edge function (supabase/functions/anomaly-detection/index.ts)\<close>

subsection \<open>Values read from untyped objects\<close>

text \<open>
  \<open>geminiAnalysis\<close> is whatever \<open>JSON.parse\<close> returned, or the default object of the
  \<open>catch\<close> branch, and the code reads five keys of it. A key that the object does not
  have reads as \<open>undefined\<close>, which is \<open>None\<close> here. The face count and the confidence
  are integers, the three flags are booleans; numbers with a fraction and values of
  another JSON type at these keys are not represented.
\<close>

record geminiAnalysis =
  faceCount :: "int option"
  cameraBlocked :: "bool option"
  highMotion :: "bool option"
  environmentStable :: "bool option"
  confidence :: "int option"

text \<open>
  The \<open>previousState\<close> of the request body: \<open>null\<close> before the first completed cycle,
  afterwards the \<open>faceDetected\<close> and \<open>faceCount\<close> of the last result.
\<close>

record previousState =
  p_faceDetected :: bool
  p_faceCount :: "int option"

datatype status = normal | flagged | warning

text \<open>The interface \<open>AnalysisResult\<close>, lines 8-17, as \<open>JSON.stringify\<close> sends it.\<close>

record AnalysisResult =
  r_faceCount :: "int option"
  r_faceDetected :: bool
  r_faceLost :: "bool option"
  r_cameraBlocked :: "bool option"
  r_highMotion :: "bool option"
  r_anomalyFlags :: "string list"
  r_riskScore :: int
  r_status :: status

text \<open>
  JavaScript's operators on a value that may be \<open>undefined\<close>: a relational comparison
  with \<open>undefined\<close> is false (it compares with NaN), \<open>===\<close> with a number is false,
  and \<open>undefined\<close> is falsy.
\<close>

definition js_gt :: "int option \<Rightarrow> int \<Rightarrow> bool" where
  "js_gt x n = (case x of None \<Rightarrow> False | Some v \<Rightarrow> v > n)"

definition js_ge :: "int option \<Rightarrow> int \<Rightarrow> bool" where
  "js_ge x n = (case x of None \<Rightarrow> False | Some v \<Rightarrow> v \<ge> n)"

definition js_strict_eq :: "int option \<Rightarrow> int \<Rightarrow> bool" where
  "js_strict_eq x n = (case x of None \<Rightarrow> False | Some v \<Rightarrow> v = n)"

definition truthy :: "bool option \<Rightarrow> bool" where
  "truthy x = (case x of None \<Rightarrow> False | Some b \<Rightarrow> b)"

text \<open>
  The text a template literal inserts for a number. A face count stands for a JavaScript
  Number, and \<open>number_to_string\<close> is what JavaScript prints for it as long as it is an
  integer of size at most \<open>2^53 = 9007199254740992\<close>: the decimal digits, with a minus
  sign for a negative one. A larger Number is printed from its rounded value, and from
  \<open>10^21\<close> on with an exponent (\<open>1e+21\<close>), which these digits are not; the statements
  about the printed count are for counts up to \<open>2^53\<close>.
\<close>

definition digit_char :: "nat \<Rightarrow> char" where
  "digit_char d = ''0123456789'' ! (d mod 10)"

fun digits :: "nat \<Rightarrow> string" where
  "digits n = (if n < 10 then [digit_char n] else digits (n div 10) @ [digit_char (n mod 10)])"

declare digits.simps [simp del]

definition number_to_string :: "int \<Rightarrow> string" where
  "number_to_string i = (if i < 0 then CHR ''-'' # digits (nat (- i)) else digits (nat i))"

definition template_value :: "int option \<Rightarrow> string" where
  "template_value x = (case x of None \<Rightarrow> ''undefined'' | Some v \<Rightarrow> number_to_string v)"

subsection \<open>Parsing the model's reply, lines 104-124\<close>

text \<open>
  \<open>textContent.match(/\{[\s\S]*\}/)\<close>: the match starts at the first opening brace and,
  the star being greedy, ends at the last closing brace after it; there is no match when
  no closing brace follows the first opening one.
\<close>

definition jsonMatch :: "string \<Rightarrow> string option" where
  "jsonMatch textContent =
     (let from_brace = dropWhile (\<lambda>c. c \<noteq> CHR ''{'') textContent in
      if from_brace = [] then None
      else let body = rev (dropWhile (\<lambda>c. c \<noteq> CHR ''}'') (rev (tl from_brace))) in
        if body = [] then None else Some (CHR ''{'' # body))"

text \<open>The object of the \<open>catch\<close> branch, lines 117-123.\<close>

definition defaultSafe :: geminiAnalysis where
  "defaultSafe = \<lparr> faceCount = Some 1, cameraBlocked = Some False, highMotion = Some False,
                   environmentStable = Some True, confidence = Some 50 \<rparr>"

text \<open>
  Lines 105-124. \<open>JSON.parse\<close> is the platform's; it is a parameter, \<open>None\<close> where it
  throws. The default object is taken in the \<open>catch\<close> branch only, which is reached by the
  \<open>throw\<close> of line 112 (no match) and by a \<open>JSON.parse\<close> that throws; an object that
  parses is kept as it is.
\<close>

definition parseGeminiResponse :: "(string \<Rightarrow> geminiAnalysis option) \<Rightarrow> string \<Rightarrow> geminiAnalysis" where
  "parseGeminiResponse JSON_parse textContent =
     (case jsonMatch textContent of
        None \<Rightarrow> defaultSafe
      | Some m \<Rightarrow> (case JSON_parse m of None \<Rightarrow> defaultSafe | Some parsed \<Rightarrow> parsed))"

subsection \<open>The risk score, lines 126-187\<close>

text \<open>Lines 170-176.\<close>

definition determineStatus :: "int \<Rightarrow> status" where
  "determineStatus riskScore =
     (if riskScore > 50 then flagged else if riskScore > 25 then warning else normal)"

text \<open>
  Line 143, \<open>previousState?.faceDetected && geminiAnalysis.faceCount === 0\<close>: \<open>undefined\<close>
  when there is no previous state, \<open>false\<close> when the previous state had no face, the
  comparison otherwise.
\<close>

definition faceLostOf :: "previousState option \<Rightarrow> geminiAnalysis \<Rightarrow> bool option" where
  "faceLostOf prev g =
     (case prev of
        None \<Rightarrow> None
      | Some p \<Rightarrow> (if p_faceDetected p then Some (js_strict_eq (faceCount g) 0) else Some False))"

text \<open>
  Lines 127-168: the six \<open>if\<close> statements in the order of the source, each adding to
  \<open>riskScore\<close> and pushing onto \<open>anomalyFlags\<close>, then the cap.
\<close>

definition calculateRisk :: "geminiAnalysis \<Rightarrow> previousState option \<Rightarrow> int \<times> string list" where
  "calculateRisk g prev =
     (let riskScore = (0::int); anomalyFlags = ([]::string list);
          (riskScore, anomalyFlags) =
            (if js_gt (faceCount g) 1
             then (riskScore + 40,
                   anomalyFlags @ [''Multiple faces detected: '' @ template_value (faceCount g)])
             else (riskScore, anomalyFlags));
          (riskScore, anomalyFlags) =
            (if js_strict_eq (faceCount g) 0
             then (riskScore + 20, anomalyFlags @ [''No face detected''])
             else (riskScore, anomalyFlags));
          faceLost = faceLostOf prev g;
          (riskScore, anomalyFlags) =
            (if truthy faceLost
             then (riskScore + 30, anomalyFlags @ [''Face suddenly disappeared''])
             else (riskScore, anomalyFlags));
          (riskScore, anomalyFlags) =
            (if truthy (cameraBlocked g)
             then (riskScore + 30, anomalyFlags @ [''Camera appears blocked''])
             else (riskScore, anomalyFlags));
          (riskScore, anomalyFlags) =
            (if truthy (highMotion g)
             then (riskScore + 20, anomalyFlags @ [''Unusual motion detected''])
             else (riskScore, anomalyFlags));
          (riskScore, anomalyFlags) =
            (if \<not> truthy (environmentStable g)
             then (riskScore + 10, anomalyFlags @ [''Environment instability detected''])
             else (riskScore, anomalyFlags))
      in (min riskScore 100, anomalyFlags))"

text \<open>Lines 126-187: the result object built from the parsed analysis.\<close>

definition score :: "geminiAnalysis \<Rightarrow> previousState option \<Rightarrow> AnalysisResult" where
  "score g prev =
     (let (riskScore, anomalyFlags) = calculateRisk g prev in
      \<lparr> r_faceCount = faceCount g,
        r_faceDetected = js_ge (faceCount g) 1,
        r_faceLost = faceLostOf prev g,
        r_cameraBlocked = cameraBlocked g,
        r_highMotion = highMotion g,
        r_anomalyFlags = anomalyFlags,
        r_riskScore = riskScore,
        r_status = determineStatus riskScore \<rparr>)"

subsection \<open>The request handler, lines 19-203\<close>

text \<open>
  What reaches the handler: a preflight request, a body that \<open>req.json()\<close> cannot read
  (it throws, with a message), or a body with its \<open>frameData\<close> (the empty string when
  the key is absent: both are falsy) and its \<open>previousState\<close>.
\<close>

datatype request =
    Preflight
  | Unreadable string
  | Body string "previousState option"

text \<open>
  What the call of the vision model gives: the \<open>fetch\<close> (or reading its body) throws, the
  response is not \<open>ok\<close> and has an error text, or the response is \<open>ok\<close> and
  \<open>textContent\<close> is the text of its first candidate (the empty string when there is none).
\<close>

datatype gemini_reply =
    FetchThrows string
  | NotOk string
  | Replied string

text \<open>The responses: the preflight one, an error with its status, message and details, a result.\<close>

datatype response =
    CorsOk
  | Failure nat string "string option"
  | Success AnalysisResult

definition serve ::
  "(string \<Rightarrow> geminiAnalysis option) \<Rightarrow> bool \<Rightarrow> request \<Rightarrow> gemini_reply \<Rightarrow> response" where
  "serve JSON_parse apiKeyConfigured req reply =
     (case req of
        Preflight \<Rightarrow> CorsOk
      | Unreadable message \<Rightarrow> Failure 500 message None
      | Body frameData previous \<Rightarrow>
          if frameData = [] then Failure 400 ''No frame data provided'' None
          else if \<not> apiKeyConfigured then Failure 500 ''API key not configured'' None
          else (case reply of
                  FetchThrows message \<Rightarrow> Failure 500 message None
                | NotOk errorText \<Rightarrow> Failure 500 ''AI analysis failed'' (Some errorText)
                | Replied textContent \<Rightarrow>
                    Success (score (parseGeminiResponse JSON_parse textContent) previous)))"

section \<open>The hook useAnomalyDetection (src/components/WebcamMonitor.tsx, lines 372-530)\<close>

text \<open>The status of \<open>AnomalyState\<close>: one of the server's three, or \<open>analyzing\<close>, or \<open>idle\<close>.\<close>

datatype ui_status = Reported status | analyzing | idle

record AnomalyState =
  s_faceCount :: "int option"
  s_faceDetected :: bool
  s_faceLost :: "bool option"
  s_cameraBlocked :: "bool option"
  s_highMotion :: "bool option"
  s_environmentStable :: bool
  s_anomalyFlags :: "string list"
  s_riskScore :: int
  s_status :: ui_status
  s_isAnalyzing :: bool
  s_error :: "string option"

record VoteMetadata =
  vm_riskScore :: int
  vm_anomalyFlags :: bool
  vm_flagHistory :: "string list"
  vm_analysisCount :: nat
  vm_maxRiskScore :: int

definition initialState :: AnomalyState where
  "initialState =
     \<lparr> s_faceCount = Some 0, s_faceDetected = False, s_faceLost = Some False,
       s_cameraBlocked = Some False, s_highMotion = Some False, s_environmentStable = True,
       s_anomalyFlags = [], s_riskScore = 0, s_status = idle, s_isAnalyzing = False,
       s_error = None \<rparr>"

definition initialVoteMetadata :: VoteMetadata where
  "initialVoteMetadata =
     \<lparr> vm_riskScore = 0, vm_anomalyFlags = False, vm_flagHistory = [], vm_analysisCount = 0,
       vm_maxRiskScore = 0 \<rparr>"

text \<open>The two pieces of React state and the four refs of the hook.\<close>

record hook =
  state :: AnomalyState
  voteMetadata :: VoteMetadata
  previousStateRef :: "previousState option"
  analysisCountRef :: nat
  flagHistoryRef :: "string list"
  maxRiskScoreRef :: int

definition useAnomalyDetection :: hook where
  "useAnomalyDetection =
     \<lparr> state = initialState, voteMetadata = initialVoteMetadata, previousStateRef = None,
       analysisCountRef = 0, flagHistoryRef = [], maxRiskScoreRef = 0 \<rparr>"

text \<open>
  What \<open>await supabase.functions.invoke(...)\<close> gives: an \<open>error\<close> with its message, the
  \<open>data\<close> of the function's result, or a rejection that lands in the \<open>catch\<close> branch.
\<close>

datatype invoke_result =
    InvokeError string
  | InvokeData AnalysisResult
  | InvokeThrows string

text \<open>
  \<open>analyzeFrame\<close> up to its \<open>await\<close>, lines 427-435: the state is set to analyzing and
  the request is sent with the \<open>previousStateRef\<close> of that moment.
\<close>

definition analyzeFrame_start :: "hook \<Rightarrow> hook" where
  "analyzeFrame_start h = h\<lparr> state := (state h)\<lparr> s_status := analyzing, s_isAnalyzing := True \<rparr> \<rparr>"

definition requestBody :: "hook \<Rightarrow> string \<Rightarrow> string \<times> previousState option" where
  "requestBody h frameData = (frameData, previousStateRef h)"

text \<open>Lines 439-445 and 488-494: the two error branches set the same state.\<close>

definition analysisFailed :: "hook \<Rightarrow> string \<Rightarrow> hook" where
  "analysisFailed h message =
     h\<lparr> state := (state h)\<lparr> s_status := Reported warning, s_isAnalyzing := False,
                             s_error := Some message \<rparr> \<rparr>"

text \<open>Lines 448-485: the refs, then the two pieces of state.\<close>

definition analysisSucceeded :: "hook \<Rightarrow> AnalysisResult \<Rightarrow> hook" where
  "analysisSucceeded h data =
     (let h = h\<lparr> previousStateRef :=
                   Some \<lparr> p_faceDetected = r_faceDetected data, p_faceCount = r_faceCount data \<rparr> \<rparr>;
          h = h\<lparr> analysisCountRef := analysisCountRef h + 1 \<rparr>;
          h = (if r_anomalyFlags data \<noteq> []
               then h\<lparr> flagHistoryRef := flagHistoryRef h @ r_anomalyFlags data \<rparr> else h);
          h = h\<lparr> maxRiskScoreRef := max (maxRiskScoreRef h) (r_riskScore data) \<rparr>;
          h = h\<lparr> state :=
                   \<lparr> s_faceCount = r_faceCount data,
                     s_faceDetected = r_faceDetected data,
                     s_faceLost = r_faceLost data,
                     s_cameraBlocked = r_cameraBlocked data,
                     s_highMotion = r_highMotion data,
                     s_environmentStable =
                       (\<not> truthy (r_cameraBlocked data) \<and> \<not> truthy (r_highMotion data)),
                     s_anomalyFlags = r_anomalyFlags data,
                     s_riskScore = r_riskScore data,
                     s_status = Reported (r_status data),
                     s_isAnalyzing = False,
                     s_error = None \<rparr> \<rparr>
      in h\<lparr> voteMetadata :=
               \<lparr> vm_riskScore = r_riskScore data,
                 vm_anomalyFlags = (r_anomalyFlags data \<noteq> []),
                 vm_flagHistory = flagHistoryRef h,
                 vm_analysisCount = analysisCountRef h,
                 vm_maxRiskScore = maxRiskScoreRef h \<rparr> \<rparr>)"

text \<open>\<open>analyzeFrame\<close> after its \<open>await\<close>: the new hook and the value returned.\<close>

definition analyzeFrame_settle :: "hook \<Rightarrow> invoke_result \<Rightarrow> hook \<times> AnalysisResult option" where
  "analyzeFrame_settle h res =
     (case res of
        InvokeError message \<Rightarrow> (analysisFailed h message, None)
      | InvokeData data \<Rightarrow> (analysisSucceeded h data, Some data)
      | InvokeThrows message \<Rightarrow> (analysisFailed h message, None))"

text \<open>One call of \<open>analyzeFrame\<close> that nothing interleaves with.\<close>

definition analyzeFrame :: "hook \<Rightarrow> invoke_result \<Rightarrow> hook \<times> AnalysisResult option" where
  "analyzeFrame h res = analyzeFrame_settle (analyzeFrame_start h) res"

text \<open>Lines 498-511.\<close>

definition reset :: "hook \<Rightarrow> hook" where
  "reset h =
     h\<lparr> state := initialState, voteMetadata := initialVoteMetadata, previousStateRef := None,
        analysisCountRef := 0, flagHistoryRef := [], maxRiskScoreRef := 0 \<rparr>"

text \<open>
  \<open>[...new Set(xs)]\<close>: the constructor adds the elements in order, \<open>add\<close> does nothing
  for a value the set has, and a set iterates in insertion order.
\<close>

definition Set_add :: "'a list \<Rightarrow> 'a \<Rightarrow> 'a list" where
  "Set_add seen x = (if x \<in> set seen then seen else seen @ [x])"

definition new_Set :: "'a list \<Rightarrow> 'a list" where
  "new_Set xs = foldl Set_add [] xs"

text \<open>The object \<open>getVoteRiskData\<close> returns, lines 513-521.\<close>

record riskData =
  rd_riskScore :: int
  rd_anomalyFlags :: bool
  rd_flagDetails :: "string list"
  rd_analysisCount :: nat
  rd_isFlagged :: bool

definition getVoteRiskData :: "hook \<Rightarrow> riskData" where
  "getVoteRiskData h =
     \<lparr> rd_riskScore = maxRiskScoreRef h,
       rd_anomalyFlags = (flagHistoryRef h \<noteq> []),
       rd_flagDetails = new_Set (flagHistoryRef h),
       rd_analysisCount = analysisCountRef h,
       rd_isFlagged = (maxRiskScoreRef h > 50) \<rparr>"

text \<open>A run of cycles, each finished before the next one starts.\<close>

definition cycles :: "hook \<Rightarrow> invoke_result list \<Rightarrow> hook" where
  "cycles h results = foldl (\<lambda>h res. fst (analyzeFrame h res)) h results"

section \<open>The component WebcamMonitor (src/components/WebcamMonitor.tsx, lines 1-371)\<close>

text \<open>
  The part of the component that the periodic analysis uses: the hook, the calls of
  \<open>analyzeFrame\<close> that wait for their answer, each with the body it sent, and the
  values handed to \<open>onRiskUpdate\<close>.
\<close>

record monitor =
  detection :: hook
  inFlight :: "(string \<times> previousState option) list"
  riskUpdates :: "riskData list"

definition WebcamMonitor :: monitor where
  "WebcamMonitor = \<lparr> detection = useAnomalyDetection, inFlight = [], riskUpdates = [] \<rparr>"

text \<open>
  \<open>captureAndAnalyze\<close>, lines 78-98, as the timer of lines 118 and 121 calls it. The
  argument is \<open>None\<close> when one of the two guards returns (no video or canvas, not active,
  no context, not enough data), the frame's data URL otherwise. Nothing else is tested
  before \<open>analyzeFrame\<close> is called.
\<close>

definition captureAndAnalyze :: "monitor \<Rightarrow> string option \<Rightarrow> monitor" where
  "captureAndAnalyze m capture =
     (case capture of
        None \<Rightarrow> m
      | Some frameData \<Rightarrow>
          m\<lparr> detection := analyzeFrame_start (detection m),
             inFlight := inFlight m @ [requestBody (detection m) frameData] \<rparr>)"

text \<open>
  The rest of \<open>captureAndAnalyze\<close>, lines 98-103, when the call at position \<open>i\<close> of
  those waiting is answered.
\<close>

definition answered :: "monitor \<Rightarrow> nat \<Rightarrow> invoke_result \<Rightarrow> monitor" where
  "answered m i res =
     (if i < length (inFlight m)
      then (let (h, result) = analyzeFrame_settle (detection m) res in
            m\<lparr> detection := h,
               inFlight := take i (inFlight m) @ drop (Suc i) (inFlight m),
               riskUpdates := riskUpdates m @
                 (case result of None \<Rightarrow> [] | Some data \<Rightarrow> [getVoteRiskData h]) \<rparr>)
      else m)"

datatype event = Tick "string option" | Answer nat invoke_result

fun step :: "monitor \<Rightarrow> event \<Rightarrow> monitor" where
  "step m (Tick capture) = captureAndAnalyze m capture"
| "step m (Answer i res) = answered m i res"

definition run :: "monitor \<Rightarrow> event list \<Rightarrow> monitor" where
  "run m events = foldl step m events"

section \<open>The specification's tables and values\<close>

text \<open>A fully populated Observation of the specification, as the object the code reads.\<close>

definition Observation :: "int \<Rightarrow> bool \<Rightarrow> bool \<Rightarrow> bool \<Rightarrow> int \<Rightarrow> geminiAnalysis" where
  "Observation n cb hm es c =
     \<lparr> faceCount = Some n, cameraBlocked = Some cb, highMotion = Some hm,
       environmentStable = Some es, confidence = Some c \<rparr>"

text \<open>
  The table of the specification's section 4.3, written from its words: six conditions in
  a fixed order, each with a weight and a flag text. The text of the first one has the
  place \<open>{faceCount}\<close>, filled with the text \<open>count\<close> that stands for the face count.
\<close>

datatype condition =
  MultipleFaces | NoFace | FaceDisappeared | CameraBlocked | HighMotion | EnvironmentUnstable

definition spec_table :: "condition list" where
  "spec_table =
     [MultipleFaces, NoFace, FaceDisappeared, CameraBlocked, HighMotion, EnvironmentUnstable]"

fun spec_weight :: "condition \<Rightarrow> int" where
  "spec_weight MultipleFaces = 40"
| "spec_weight NoFace = 20"
| "spec_weight FaceDisappeared = 30"
| "spec_weight CameraBlocked = 30"
| "spec_weight HighMotion = 20"
| "spec_weight EnvironmentUnstable = 10"

fun spec_flag_text :: "string \<Rightarrow> condition \<Rightarrow> string" where
  "spec_flag_text count MultipleFaces = ''Multiple faces detected: '' @ count"
| "spec_flag_text count NoFace = ''No face detected''"
| "spec_flag_text count FaceDisappeared = ''Face suddenly disappeared''"
| "spec_flag_text count CameraBlocked = ''Camera appears blocked''"
| "spec_flag_text count HighMotion = ''Unusual motion detected''"
| "spec_flag_text count EnvironmentUnstable = ''Environment instability detected''"

fun spec_matches ::
  "int \<Rightarrow> bool \<Rightarrow> bool \<Rightarrow> bool \<Rightarrow> previousState option \<Rightarrow> condition \<Rightarrow> bool" where
  "spec_matches n cb hm es prev MultipleFaces = (n > 1)"
| "spec_matches n cb hm es prev NoFace = (n = 0)"
| "spec_matches n cb hm es prev FaceDisappeared =
     (case prev of None \<Rightarrow> False | Some p \<Rightarrow> p_faceDetected p \<and> n = 0)"
| "spec_matches n cb hm es prev CameraBlocked = cb"
| "spec_matches n cb hm es prev HighMotion = hm"
| "spec_matches n cb hm es prev EnvironmentUnstable = (\<not> es)"

definition spec_matched ::
  "int \<Rightarrow> bool \<Rightarrow> bool \<Rightarrow> bool \<Rightarrow> previousState option \<Rightarrow> condition list" where
  "spec_matched n cb hm es prev = filter (spec_matches n cb hm es prev) spec_table"

text \<open>An object with none of the five keys, which is what the text \<open>{}\<close> parses to.\<close>

definition emptyObject :: geminiAnalysis where
  "emptyObject =
     \<lparr> faceCount = None, cameraBlocked = None, highMotion = None, environmentStable = None,
       confidence = None \<rparr>"

text \<open>
  A \<open>JSON.parse\<close> for concrete runs: right on the text \<open>{}\<close>, and throwing on every other
  text, which is right for the texts that are not JSON.
\<close>

definition JSON_parse_braces :: "string \<Rightarrow> geminiAnalysis option" where
  "JSON_parse_braces s = (if s = ''{}'' then Some emptyObject else None)"

text \<open>The reply has no brace-delimited part, or \<open>JSON.parse\<close> throws on that part.\<close>

definition unparsable :: "(string \<Rightarrow> geminiAnalysis option) \<Rightarrow> string \<Rightarrow> bool" where
  "unparsable JSON_parse textContent =
     (case jsonMatch textContent of None \<Rightarrow> True | Some m \<Rightarrow> JSON_parse m = None)"

section \<open>Facts about the risk score\<close>

lemma faceLostOf_confidence: "faceLostOf prev (g\<lparr>confidence := c\<rparr>) = faceLostOf prev g"
  by (cases prev) (simp_all add: faceLostOf_def)

lemma calculateRisk_confidence:
  "calculateRisk (g\<lparr>confidence := c\<rparr>) prev = calculateRisk g prev"
  unfolding calculateRisk_def faceLostOf_confidence by simp

lemma calculateRisk_Observation:
  "calculateRisk (Observation n cb hm es c) prev =
    (min 100 (sum_list (map spec_weight (spec_matched n cb hm es prev))),
     map (spec_flag_text (template_value (Some n))) (spec_matched n cb hm es prev))"
  by (cases prev)
     (auto simp: calculateRisk_def Observation_def spec_matched_def spec_table_def faceLostOf_def
        js_gt_def js_strict_eq_def truthy_def template_value_def Let_def)

lemma calculateRisk_defaultSafe: "calculateRisk defaultSafe prev = (0, [])"
  by (cases prev)
     (simp_all add: calculateRisk_def defaultSafe_def faceLostOf_def js_gt_def js_strict_eq_def
        truthy_def)

lemma calculateRisk_emptyObject:
  "calculateRisk emptyObject None = (10, [''Environment instability detected''])"
  by (simp add: calculateRisk_def emptyObject_def faceLostOf_def js_gt_def js_strict_eq_def
        truthy_def)

lemma jsonMatch_braces: "jsonMatch ''{}'' = Some ''{}''"
  by (simp add: jsonMatch_def)

lemma number_to_string_2: "number_to_string 2 = ''2''"
  by (simp add: number_to_string_def digits.simps digit_char_def)

lemma number_to_string_limit: "number_to_string 9007199254740992 = ''9007199254740992''"
  by (simp add: number_to_string_def digits.simps digit_char_def)

text \<open>
  C1. For every fully populated observation and every previous state, the code's chain of
  six \<open>if\<close> statements computes what the specification's table says: the risk score is
  the sum of the weights of the matched conditions, capped at 100; the flags are the
  texts of the matched conditions in the order of the table, with one text standing for the
  face count; \<open>faceDetected\<close> is \<open>faceCount \<ge> 1\<close>. For a face count of at most
  \<open>2^53\<close> the text that stands for it is its decimal numeral (a count of at most 1 is
  not printed at all). The scenario of the specification (two faces, camera blocked, no
  high motion, stable environment) scores 70, is flagged, and has the two flags
  "Multiple faces detected: 2" and "Camera appears blocked", whatever the previous state
  and the confidence; a lone count of \<open>2^53\<close> is printed with all its digits.
\<close>

theorem risk_score_table:
  "r_riskScore (score (Observation n cb hm es c) prev)
      = min 100 (sum_list (map spec_weight (spec_matched n cb hm es prev)))
  \<and> (\<exists>count. r_anomalyFlags (score (Observation n cb hm es c) prev)
      = map (spec_flag_text count) (spec_matched n cb hm es prev))
  \<and> (n \<le> 9007199254740992 \<longrightarrow>
      r_anomalyFlags (score (Observation n cb hm es c) prev)
      = map (spec_flag_text (number_to_string n)) (spec_matched n cb hm es prev))
  \<and> r_faceDetected (score (Observation n cb hm es c) prev) = (n \<ge> 1)
  \<and> r_riskScore (score (Observation 2 True False True c) prev) = 70
  \<and> r_status (score (Observation 2 True False True c) prev) = flagged
  \<and> r_anomalyFlags (score (Observation 2 True False True c) prev)
      = [''Multiple faces detected: 2'', ''Camera appears blocked'']
  \<and> r_anomalyFlags (score (Observation 9007199254740992 False False True c) prev)
      = [''Multiple faces detected: 9007199254740992'']"
proof -
  have flags: "r_anomalyFlags (score (Observation n cb hm es c) prev)
      = map (spec_flag_text (number_to_string n)) (spec_matched n cb hm es prev)" for n cb hm es
    unfolding score_def calculateRisk_Observation by (simp add: template_value_def)
  have "r_riskScore (score (Observation n cb hm es c) prev)
      = min 100 (sum_list (map spec_weight (spec_matched n cb hm es prev)))"
    unfolding score_def calculateRisk_Observation by simp
  moreover have "\<exists>count. r_anomalyFlags (score (Observation n cb hm es c) prev)
      = map (spec_flag_text count) (spec_matched n cb hm es prev)"
    using flags by blast
  moreover have "r_faceDetected (score (Observation n cb hm es c) prev) = (n \<ge> 1)"
    unfolding score_def calculateRisk_Observation by (simp add: js_ge_def Observation_def)
  moreover have "r_riskScore (score (Observation 2 True False True c) prev) = 70"
    and "r_status (score (Observation 2 True False True c) prev) = flagged"
    unfolding score_def calculateRisk_Observation
    by (simp_all add: spec_matched_def spec_table_def determineStatus_def split: option.splits)
  moreover have "r_anomalyFlags (score (Observation 2 True False True c) prev)
      = [''Multiple faces detected: 2'', ''Camera appears blocked'']"
    unfolding flags
    by (simp add: spec_matched_def spec_table_def number_to_string_2 split: option.splits)
  moreover have "r_anomalyFlags (score (Observation 9007199254740992 False False True c) prev)
      = [''Multiple faces detected: 9007199254740992'']"
    unfolding flags
    by (simp add: spec_matched_def spec_table_def number_to_string_limit split: option.splits)
  ultimately show ?thesis using flags by blast
qed

text \<open>
  The bound holds at the scenario's count and at \<open>2^53\<close> itself, where the flags are the
  table's texts with the decimal numeral.
\<close>

theorem risk_score_table_witness:
  "(2::int) \<le> 9007199254740992
   \<and> r_anomalyFlags (score (Observation 2 True False True 90) None)
      = map (spec_flag_text (number_to_string 2)) (spec_matched 2 True False True None)
   \<and> (9007199254740992::int) \<le> 9007199254740992
   \<and> r_anomalyFlags (score (Observation 9007199254740992 False True True 90) None)
      = map (spec_flag_text (number_to_string 9007199254740992))
          (spec_matched 9007199254740992 False True True None)"
proof -
  have h1: "(2::int) \<le> 9007199254740992" by simp
  have h2: "(9007199254740992::int) \<le> 9007199254740992" by simp
  note a = risk_score_table [of 2 True False True 90 None,
      THEN conjunct2, THEN conjunct2, THEN conjunct1, rule_format, OF h1]
  note b = risk_score_table [of 9007199254740992 False True True 90 None,
      THEN conjunct2, THEN conjunct2, THEN conjunct1, rule_format, OF h2]
  show ?thesis using h1 h2 a b by blast
qed

text \<open>
  C2, as stated, fails: a reply whose JSON parses but has none of the required keys is not
  replaced by the default object. On the reply \<open>{}\<close> the analysis is the empty object,
  and the missing \<open>environmentStable\<close> counts as instability: the risk score is 10, not 0.
\<close>

theorem missing_fields_counterexample:
  "parseGeminiResponse JSON_parse_braces ''{}'' \<noteq> defaultSafe
   \<and> r_riskScore (score (parseGeminiResponse JSON_parse_braces ''{}'') None) = 10"
  by (simp add: parseGeminiResponse_def jsonMatch_braces JSON_parse_braces_def score_def
        calculateRisk_emptyObject)
     (simp add: emptyObject_def defaultSafe_def)

text \<open>
  C2, amended. When the reply has no brace-delimited part, or \<open>JSON.parse\<close> throws on
  that part, the analysis is the default object, and the cycle has risk score 0, status
  normal and no flag, whatever the previous state. When the part parses, the parsed object
  is the analysis, as it is.
\<close>

theorem parse_failure_default:
  "(unparsable JSON_parse textContent \<longrightarrow>
      parseGeminiResponse JSON_parse textContent = defaultSafe
      \<and> r_riskScore (score (parseGeminiResponse JSON_parse textContent) prev) = 0
      \<and> r_status (score (parseGeminiResponse JSON_parse textContent) prev) = normal
      \<and> r_anomalyFlags (score (parseGeminiResponse JSON_parse textContent) prev) = [])
   \<and> (jsonMatch textContent = Some m \<and> JSON_parse m = Some parsed \<longrightarrow>
      parseGeminiResponse JSON_parse textContent = parsed)"
proof -
  have d: "r_riskScore (score defaultSafe prev) = 0 \<and> r_status (score defaultSafe prev) = normal
      \<and> r_anomalyFlags (score defaultSafe prev) = []"
    by (simp add: score_def calculateRisk_defaultSafe determineStatus_def)
  have u: "unparsable JSON_parse textContent \<Longrightarrow>
      parseGeminiResponse JSON_parse textContent = defaultSafe"
    by (simp add: unparsable_def parseGeminiResponse_def split: option.splits)
  have p: "jsonMatch textContent = Some m \<Longrightarrow> JSON_parse m = Some parsed \<Longrightarrow>
      parseGeminiResponse JSON_parse textContent = parsed"
    by (simp add: parseGeminiResponse_def)
  from d u p show ?thesis by simp
qed

theorem parse_failure_default_witness:
  "unparsable JSON_parse_braces ''I can see one person.''
   \<and> parseGeminiResponse JSON_parse_braces ''I can see one person.'' = defaultSafe
   \<and> r_riskScore (score (parseGeminiResponse JSON_parse_braces ''I can see one person.'') None) = 0
   \<and> r_status (score (parseGeminiResponse JSON_parse_braces ''I can see one person.'') None) = normal
   \<and> unparsable JSON_parse_braces ''{faces: one}''
   \<and> parseGeminiResponse JSON_parse_braces ''{faces: one}'' = defaultSafe
   \<and> jsonMatch ''{}'' = Some ''{}'' \<and> JSON_parse_braces ''{}'' = Some emptyObject
   \<and> parseGeminiResponse JSON_parse_braces ''{}'' = emptyObject"
proof -
  have h1: "unparsable JSON_parse_braces ''I can see one person.''"
    by (simp add: unparsable_def jsonMatch_def)
  have h2: "unparsable JSON_parse_braces ''{faces: one}''"
    by (simp add: unparsable_def jsonMatch_def JSON_parse_braces_def)
  have h3: "jsonMatch ''{}'' = Some ''{}'' \<and> JSON_parse_braces ''{}'' = Some emptyObject"
    by (simp add: jsonMatch_braces JSON_parse_braces_def)
  note a = parse_failure_default
    [of JSON_parse_braces "''I can see one person.''" None, THEN conjunct1, rule_format, OF h1]
  note b = parse_failure_default
    [of JSON_parse_braces "''{faces: one}''" None, THEN conjunct1, rule_format, OF h2]
  note c = parse_failure_default
    [of JSON_parse_braces "''{}''" None "''{}''" emptyObject, THEN conjunct2, rule_format, OF h3]
  show ?thesis using h1 h2 h3 a b c by blast
qed

text \<open>
  C4. For every risk score the status is flagged exactly above 50, warning exactly above
  25 and up to 50, normal exactly up to 25; 25 is normal and 50 is warning. The status of
  a result is this function of the result's risk score.
\<close>

theorem status_tiers:
  "(r > 50 \<longleftrightarrow> determineStatus r = flagged)
  \<and> (25 < r \<and> r \<le> 50 \<longleftrightarrow> determineStatus r = warning)
  \<and> (r \<le> 25 \<longleftrightarrow> determineStatus r = normal)
  \<and> determineStatus 25 = normal \<and> determineStatus 50 = warning
  \<and> r_status (score g prev) = determineStatus (r_riskScore (score g prev))"
  by (auto simp: determineStatus_def score_def split: prod.splits)

text \<open>
  C9. The result does not depend on the confidence: two analyses that differ in their
  \<open>confidence\<close> only give the same result, field by field.
\<close>

theorem score_ignores_confidence: "score (g\<lparr>confidence := c\<rparr>) prev = score g prev"
  unfolding score_def calculateRisk_confidence faceLostOf_confidence by simp

section \<open>Facts about the hook and the component\<close>

lemma analyzeFrame_start_refs:
  "previousStateRef (analyzeFrame_start h) = previousStateRef h"
  "analysisCountRef (analyzeFrame_start h) = analysisCountRef h"
  "flagHistoryRef (analyzeFrame_start h) = flagHistoryRef h"
  "maxRiskScoreRef (analyzeFrame_start h) = maxRiskScoreRef h"
  "voteMetadata (analyzeFrame_start h) = voteMetadata h"
  by (simp_all add: analyzeFrame_start_def)

lemma analysisFailed_refs:
  "previousStateRef (analysisFailed h message) = previousStateRef h"
  "analysisCountRef (analysisFailed h message) = analysisCountRef h"
  "flagHistoryRef (analysisFailed h message) = flagHistoryRef h"
  "maxRiskScoreRef (analysisFailed h message) = maxRiskScoreRef h"
  "voteMetadata (analysisFailed h message) = voteMetadata h"
  by (simp_all add: analysisFailed_def)

lemma analysisSucceeded_refs:
  "previousStateRef (analysisSucceeded h data) =
     Some \<lparr> p_faceDetected = r_faceDetected data, p_faceCount = r_faceCount data \<rparr>"
  "analysisCountRef (analysisSucceeded h data) = analysisCountRef h + 1"
  "flagHistoryRef (analysisSucceeded h data) = flagHistoryRef h @ r_anomalyFlags data"
  "maxRiskScoreRef (analysisSucceeded h data) = max (maxRiskScoreRef h) (r_riskScore data)"
  by (simp_all add: analysisSucceeded_def Let_def)

lemma analysisSucceeded_environmentStable:
  "s_environmentStable (state (analysisSucceeded h data)) =
     (\<not> truthy (r_cameraBlocked data) \<and> \<not> truthy (r_highMotion data))"
  by (simp add: analysisSucceeded_def Let_def)

lemma analyzeFrame_simps:
  "analyzeFrame h (InvokeError message) = (analysisFailed (analyzeFrame_start h) message, None)"
  "analyzeFrame h (InvokeThrows message) = (analysisFailed (analyzeFrame_start h) message, None)"
  "analyzeFrame h (InvokeData data) = (analysisSucceeded (analyzeFrame_start h) data, Some data)"
  by (simp_all add: analyzeFrame_def analyzeFrame_settle_def)

lemma cycles_Nil: "cycles h [] = h"
  by (simp add: cycles_def)

lemma cycles_Cons: "cycles h (res # results) = cycles (fst (analyzeFrame h res)) results"
  by (simp add: cycles_def)

lemma maxRiskScoreRef_analyzeFrame:
  "maxRiskScoreRef h \<le> maxRiskScoreRef (fst (analyzeFrame h res))"
  by (cases res)
     (simp_all add: analyzeFrame_simps analysisFailed_refs analysisSucceeded_refs
        analyzeFrame_start_refs)

lemma maxRiskScoreRef_cycles: "maxRiskScoreRef h \<le> maxRiskScoreRef (cycles h results)"
proof (induction results arbitrary: h)
  case Nil
  show ?case by (simp add: cycles_Nil)
next
  case (Cons res results)
  have "maxRiskScoreRef h \<le> maxRiskScoreRef (fst (analyzeFrame h res))"
    by (rule maxRiskScoreRef_analyzeFrame)
  also have "\<dots> \<le> maxRiskScoreRef (cycles (fst (analyzeFrame h res)) results)"
    by (rule Cons.IH)
  finally show ?case by (simp add: cycles_Cons)
qed

lemma foldl_Set_add:
  "distinct acc \<Longrightarrow>
     distinct (foldl Set_add acc xs) \<and> set (foldl Set_add acc xs) = set acc \<union> set xs"
proof (induction xs arbitrary: acc)
  case Nil
  then show ?case by simp
next
  case (Cons x xs)
  have "distinct (Set_add acc x)" and "set (Set_add acc x) = insert x (set acc)"
    using Cons.prems by (auto simp: Set_add_def)
  with Cons.IH [of "Set_add acc x"] show ?case by auto
qed

lemma new_Set_distinct: "distinct (new_Set xs)"
  using foldl_Set_add [of "[]" xs] by (simp add: new_Set_def)

lemma new_Set_set: "set (new_Set xs) = set xs"
  using foldl_Set_add [of "[]" xs] by (simp add: new_Set_def)

lemma run_ticks:
  "inFlight (foldl step m (map (\<lambda>frameData. Tick (Some frameData)) frames)) =
     inFlight m @ map (\<lambda>frameData. (frameData, previousStateRef (detection m))) frames"
proof (induction frames arbitrary: m)
  case Nil
  show ?case by simp
next
  case (Cons f frames)
  show ?case
    by (simp add: Cons.IH captureAndAnalyze_def requestBody_def analyzeFrame_start_refs)
qed

lemma maxRiskScoreRef_settle:
  "maxRiskScoreRef h \<le> maxRiskScoreRef (fst (analyzeFrame_settle h res))"
  by (cases res) (simp_all add: analyzeFrame_settle_def analysisFailed_refs analysisSucceeded_refs)

lemma maxRiskScoreRef_step:
  "maxRiskScoreRef (detection m) \<le> maxRiskScoreRef (detection (step m e))"
proof (cases e)
  case (Tick capture)
  then show ?thesis
    by (cases capture) (simp_all add: captureAndAnalyze_def analyzeFrame_start_refs)
next
  case (Answer i res)
  then show ?thesis
    using maxRiskScoreRef_settle [of "detection m" res]
    by (auto simp: answered_def split: prod.splits)
qed

lemma maxRiskScoreRef_run:
  "maxRiskScoreRef (detection m) \<le> maxRiskScoreRef (detection (foldl step m events))"
proof (induction events arbitrary: m)
  case Nil
  show ?case by simp
next
  case (Cons e events)
  have "maxRiskScoreRef (detection m) \<le> maxRiskScoreRef (detection (step m e))"
    by (rule maxRiskScoreRef_step)
  also have "\<dots> \<le> maxRiskScoreRef (detection (foldl step (step m e) events))"
    by (rule Cons.IH)
  finally show ?case by simp
qed

text \<open>
  C3, as stated, fails: \<open>captureAndAnalyze\<close> tests the video, the canvas, \<open>isActive\<close>
  and the ready state, and nothing about a call that has not been answered. Two ticks of
  the timer with a frame ready, and no answer between them, leave two calls in flight.
\<close>

theorem ticks_counterexample:
  "length (inFlight (run WebcamMonitor [Tick (Some ''frame 1''), Tick (Some ''frame 2'')])) = 2"
  by (simp add: run_def WebcamMonitor_def captureAndAnalyze_def)

text \<open>
  C3, amended. Every tick that finds a frame ready starts a classification call, whatever
  is in flight, and sends the previous state of that moment; a tick that finds no frame
  starts none. So after a run of ready ticks with no answer between them the calls in
  flight have grown by the number of ticks: calls started never exceed ticks fired, and
  nothing bounds the calls in flight by one.
\<close>

theorem every_ready_tick_starts_a_call:
  "inFlight (step m (Tick (Some frameData))) =
      inFlight m @ [(frameData, previousStateRef (detection m))]
   \<and> inFlight (step m (Tick None)) = inFlight m
   \<and> length (inFlight (run m (map (\<lambda>frameData. Tick (Some frameData)) frames)))
      = length (inFlight m) + length frames"
  by (simp add: run_def run_ticks captureAndAnalyze_def requestBody_def)

text \<open>
  C5. A failure of the model call never makes the handler answer with a result (so no
  default analysis is scored), and when \<open>invoke\<close> gives an error or throws,
  \<open>analyzeFrame\<close> returns \<open>null\<close> and leaves \<open>maxRiskScoreRef\<close>, \<open>flagHistoryRef\<close>,
  \<open>analysisCountRef\<close>, \<open>previousStateRef\<close>, the vote metadata and the snapshot of
  \<open>getVoteRiskData\<close> as they were before the cycle.
\<close>

theorem transport_failure_abandons_cycle:
  "serve JSON_parse apiKeyConfigured req (NotOk errorText) \<noteq> Success result
   \<and> serve JSON_parse apiKeyConfigured req (FetchThrows message) \<noteq> Success result
   \<and> snd (analyzeFrame h (InvokeError message)) = None
   \<and> maxRiskScoreRef (fst (analyzeFrame h (InvokeError message))) = maxRiskScoreRef h
   \<and> flagHistoryRef (fst (analyzeFrame h (InvokeError message))) = flagHistoryRef h
   \<and> analysisCountRef (fst (analyzeFrame h (InvokeError message))) = analysisCountRef h
   \<and> previousStateRef (fst (analyzeFrame h (InvokeError message))) = previousStateRef h
   \<and> voteMetadata (fst (analyzeFrame h (InvokeError message))) = voteMetadata h
   \<and> getVoteRiskData (fst (analyzeFrame h (InvokeError message))) = getVoteRiskData h
   \<and> analyzeFrame h (InvokeThrows message) = analyzeFrame h (InvokeError message)"
  by (simp add: serve_def analyzeFrame_simps analysisFailed_refs analyzeFrame_start_refs
        getVoteRiskData_def split: request.splits)

text \<open>
  C6, as stated, fails: \<open>flagHistoryRef\<close> is an array to which every cycle's flags are
  appended, so a flag seen in two cycles is stored twice. Two cycles without a face, the
  first with no previous state, store "No face detected" twice.
\<close>

theorem flagHistory_counterexample:
  "flagHistoryRef (cycles useAnomalyDetection
      [InvokeData (score (Observation 0 False False True 90) None),
       InvokeData (score (Observation 0 False False True 90)
          (Some \<lparr> p_faceDetected = False, p_faceCount = Some 0 \<rparr>))])
    = [''No face detected'', ''No face detected'']
   \<and> \<not> distinct (flagHistoryRef (cycles useAnomalyDetection
      [InvokeData (score (Observation 0 False False True 90) None),
       InvokeData (score (Observation 0 False False True 90)
          (Some \<lparr> p_faceDetected = False, p_faceCount = Some 0 \<rparr>))]))"
  by (simp add: cycles_Cons cycles_Nil analyzeFrame_simps analysisSucceeded_refs
        analyzeFrame_start_refs useAnomalyDetection_def score_def calculateRisk_Observation
        spec_matched_def spec_table_def)

text \<open>
  C6, amended. A completed cycle appends its flags to \<open>flagHistoryRef\<close>, duplicates
  included. The \<open>flagDetails\<close> of the snapshot are the stored flags with duplicates
  removed: no string occurs twice in them, and they are the same strings as the stored ones.
\<close>

theorem flagDetails_distinct:
  "flagHistoryRef (fst (analyzeFrame h (InvokeData data))) = flagHistoryRef h @ r_anomalyFlags data
   \<and> distinct (rd_flagDetails (getVoteRiskData h))
   \<and> set (rd_flagDetails (getVoteRiskData h)) = set (flagHistoryRef h)"
  by (simp add: analyzeFrame_simps analysisSucceeded_refs analyzeFrame_start_refs
        getVoteRiskData_def new_Set_distinct new_Set_set)

text \<open>
  C7. A completed cycle sets \<open>maxRiskScoreRef\<close> to the maximum of its old value and the
  new risk score. Over any run of cycles, failed ones included, with no reset, it does
  not decrease, neither does the \<open>riskScore\<close> of the snapshot, and an \<open>isFlagged\<close>
  that is true stays true. The same holds over any run of timer ticks and answers of the
  component, overlapping calls included.
\<close>

theorem maxRiskScore_monotone:
  "maxRiskScoreRef (fst (analyzeFrame h (InvokeData data)))
      = max (maxRiskScoreRef h) (r_riskScore data)
   \<and> maxRiskScoreRef h \<le> maxRiskScoreRef (cycles h results)
   \<and> rd_riskScore (getVoteRiskData h) \<le> rd_riskScore (getVoteRiskData (cycles h results))
   \<and> (rd_isFlagged (getVoteRiskData h) \<longrightarrow> rd_isFlagged (getVoteRiskData (cycles h results)))
   \<and> maxRiskScoreRef (detection m) \<le> maxRiskScoreRef (detection (run m events))"
  using maxRiskScoreRef_cycles [of h results] maxRiskScoreRef_run [of m events]
  by (simp add: analyzeFrame_simps analysisSucceeded_refs analyzeFrame_start_refs
        getVoteRiskData_def run_def)

text \<open>
  A session that is flagged by a frame with two faces and a blocked camera stays flagged
  after a clean frame and a failed call.
\<close>

theorem maxRiskScore_monotone_witness:
  "rd_isFlagged (getVoteRiskData
      (cycles useAnomalyDetection [InvokeData (score (Observation 2 True False True 90) None)]))
   \<and> rd_isFlagged (getVoteRiskData
      (cycles (cycles useAnomalyDetection
                 [InvokeData (score (Observation 2 True False True 90) None)])
         [InvokeData (score (Observation 1 False False True 95)
            (Some \<lparr> p_faceDetected = True, p_faceCount = Some 2 \<rparr>)),
          InvokeError ''Edge Function returned a non-2xx status code'']))"
proof -
  have h: "rd_isFlagged (getVoteRiskData
      (cycles useAnomalyDetection [InvokeData (score (Observation 2 True False True 90) None)]))"
    by (simp add: cycles_Cons cycles_Nil analyzeFrame_simps analysisSucceeded_refs
          analyzeFrame_start_refs useAnomalyDetection_def score_def calculateRisk_Observation
          spec_matched_def spec_table_def getVoteRiskData_def)
  note m = maxRiskScore_monotone
    [of "cycles useAnomalyDetection [InvokeData (score (Observation 2 True False True 90) None)]"
        "score (Observation 2 True False True 90) None"
        "[InvokeData (score (Observation 1 False False True 95)
            (Some \<lparr> p_faceDetected = True, p_faceCount = Some 2 \<rparr>)),
          InvokeError ''Edge Function returned a non-2xx status code'']",
      THEN conjunct2, THEN conjunct2, THEN conjunct2, THEN conjunct1, rule_format, OF h]
  show ?thesis using h m by blast
qed

text \<open>
  C8. After \<open>reset\<close> the flag history is empty, the analysis count and the maximal risk
  score are 0 and there is no previous state: the hook is the initial one, and its
  snapshot has no flag and is not flagged.
\<close>

theorem reset_initial:
  "flagHistoryRef (reset h) = []
   \<and> analysisCountRef (reset h) = 0
   \<and> maxRiskScoreRef (reset h) = 0
   \<and> previousStateRef (reset h) = None
   \<and> reset h = useAnomalyDetection
   \<and> rd_flagDetails (getVoteRiskData (reset h)) = []
   \<and> rd_isFlagged (getVoteRiskData (reset h)) = False"
  by (simp add: reset_def useAnomalyDetection_def getVoteRiskData_def new_Set_def)

text \<open>
  C10. After a successful cycle the \<open>environmentStable\<close> of the hook's state is
  \<open>!cameraBlocked && !highMotion\<close> of the returned result. For a fully populated
  observation that is "not blocked and no high motion", and the \<open>environmentStable\<close>
  that the classifier reported does not change it.
\<close>

theorem ui_environmentStable:
  "s_environmentStable (state (fst (analyzeFrame h (InvokeData data))))
      = (\<not> truthy (r_cameraBlocked data) \<and> \<not> truthy (r_highMotion data))
   \<and> s_environmentStable
        (state (fst (analyzeFrame h (InvokeData (score (Observation n cb hm es c) prev)))))
      = (\<not> cb \<and> \<not> hm)
   \<and> s_environmentStable
        (state (fst (analyzeFrame h (InvokeData (score (g\<lparr>environmentStable := e\<rparr>) prev)))))
      = s_environmentStable (state (fst (analyzeFrame h (InvokeData (score g prev)))))"
  by (simp add: analyzeFrame_simps analysisSucceeded_environmentStable score_def Observation_def
        truthy_def split: prod.splits)

end
